theory Spec2Isabelle
  imports Main "HOL-Library.Char_ord" "HOL-Library.List_Lexorder" "HOL-Library.Multiset"
begin

section \<open>The store of TSTyche: tag resolution and compiler installation\<close>

text \<open>
  The development follows two classes of the repository, \<^verbatim>\<open>StoreService\<close>
  (\<^verbatim>\<open>src/store/StoreService.ts\<close>) and \<^verbatim>\<open>CompilerModuleWorker\<close>
  (\<^verbatim>\<open>src/store/CompilerModuleWorker.ts\<close>). A method becomes a function that takes the
  object (a record of its private fields), the part of the outside world the method reads
  (the file system, the clock, the outcome of an external process) and returns its result,
  the changed objects and the list of effects it performed, in the order of the source.

  Strings are lists of characters. A JavaScript string is a sequence of UTF-16 code units;
  the tags, versions and paths handled here are ASCII, where a character, a byte and a code
  unit are the same thing and the default order of \<^verbatim>\<open>Array.prototype.sort\<close> is the
  lexicographic order of the character codes.
\<close>

subsection \<open>Values shared by both classes\<close>

text \<open>A thrown JavaScript value: an \<^verbatim>\<open>Error\<close> with its message, or the
  \<^verbatim>\<open>TypeError\<close> raised when a value that is not a function is called.\<close>

datatype js_error = Error string | TypeError string

text \<open>The three factory methods of \<^verbatim>\<open>Diagnostic\<close> that the two classes call. The text
  of a diagnostic is a list of lines; a single string is the list of one line.\<close>

datatype diagnostic =
    Diagnostic_error "string list"
  | Diagnostic_warning "string list"
  | Diagnostic_fromError string js_error

text \<open>The payloads handed to \<^verbatim>\<open>EventEmitter.dispatch\<close>.\<close>

datatype event =
    store_info string string
  | store_error "diagnostic list"

text \<open>Everything a method does to the outside, in program order.\<close>

datatype effect =
    Dispatch event
  | OnDiagnostic diagnostic
  | Fs_mkdir string
  | Lock_new string
  | Fs_writeFile string string
  | Spawn string "string list" string
  | Lock_release string

subsection \<open>The manifest\<close>

text \<open>
  \<^verbatim>\<open>resolutions\<close> is a JavaScript object used as a dictionary. It is kept as an
  association list in the order in which \<^verbatim>\<open>Object.keys\<close> enumerates it (insertion order
  for the keys that occur here, none of which is an array index), because
  \<^verbatim>\<open>resolveTag\<close> looks at the last five keys. The list holds the object's own
  properties.
\<close>

record Manifest =
  resolutions :: "(string \<times> string) list"
  versions :: "string list"
  lastFetched :: int
  lastUsed :: "(string \<rightharpoonup> int) option"

definition Object_keys :: "(string \<times> 'v) list \<Rightarrow> string list" where
  "Object_keys obj = map fst obj"

text \<open>
  The object is a plain one, so besides its own properties it has those of
  \<^verbatim>\<open>Object.prototype\<close>: a property read \<^verbatim>\<open>obj[k]\<close> and the test \<^verbatim>\<open>k in obj\<close> find
  an own property first and an inherited one otherwise. The names below are the properties
  of \<^verbatim>\<open>Object.prototype\<close>; all are functions except \<^verbatim>\<open>__proto__\<close>, which reads as
  the prototype object itself. None of them is a string.
\<close>

definition Object_prototype :: "string list" where
  "Object_prototype =
     [''constructor'', ''__defineGetter__'', ''__defineSetter__'', ''hasOwnProperty'',
      ''__lookupGetter__'', ''__lookupSetter__'', ''isPrototypeOf'', ''propertyIsEnumerable'',
      ''toString'', ''valueOf'', ''__proto__'', ''toLocaleString'']"

text \<open>What a property read of \<^verbatim>\<open>resolutions\<close> yields when it yields something: the string
  stored under an own key, or the inherited member of that name.\<close>

datatype js_value = js_string string | js_inherited string

definition get_property :: "(string \<times> string) list \<Rightarrow> string \<Rightarrow> js_value option" where
  "get_property obj k =
     (case map_of obj k of
        Some v \<Rightarrow> Some (js_string v)
      | None \<Rightarrow> if k \<in> set Object_prototype then Some (js_inherited k) else None)"

text \<open>\<^verbatim>\<open>k in obj\<close>.\<close>

definition has_property :: "string \<Rightarrow> (string \<times> string) list \<Rightarrow> bool" where
  "has_property k obj = (map_of obj k \<noteq> None \<or> k \<in> set Object_prototype)"

text \<open>\<^verbatim>\<open>xs.slice(-n)\<close>: the last \<open>n\<close> elements, the whole array when it is shorter.\<close>

definition slice_last :: "nat \<Rightarrow> 'a list \<Rightarrow> 'a list" where
  "slice_last n xs = drop (length xs - n) xs"

text \<open>\<^verbatim>\<open>s.startsWith(p)\<close>.\<close>

definition startsWith :: "string \<Rightarrow> string \<Rightarrow> bool" where
  "startsWith s p = (take (length p) s = p)"

text \<open>
  Modelled from the spec: \<^verbatim>\<open>ManifestWorker.isOutdated\<close>, whose file
  (\<^verbatim>\<open>ManifestWorker.ts\<close>) is not among the sources. The specification gives it as
  "true iff \<^verbatim>\<open>now - manifest.lastFetched > ageToleranceSeconds\<close>"; \<open>now\<close> is the reading
  of the clock at the call.
\<close>

definition isOutdated :: "int \<Rightarrow> Manifest \<Rightarrow> int \<Rightarrow> bool" where
  "isOutdated now m ageTolerance = (now - lastFetched m > ageTolerance)"

subsection \<open>Numbers and JSON text\<close>

text \<open>\<^verbatim>\<open>String(n)\<close> for an integer: the decimal digits, with a minus sign below zero.\<close>

definition digit_char :: "nat \<Rightarrow> char" where
  "digit_char d = ''0123456789'' ! d"

function decimal :: "nat \<Rightarrow> string" where
  "decimal n = (if n < 10 then [digit_char n] else decimal (n div 10) @ [digit_char (n mod 10)])"
  by pat_completeness auto
termination
  by (relation "measure id") auto

declare decimal.simps [simp del]

definition String_int :: "int \<Rightarrow> string" where
  "String_int i = (if i < 0 then CHR ''-'' # decimal (nat (- i)) else decimal (nat i))"

text \<open>\<^verbatim>\<open>String(code)\<close> for the exit code of a child process, which is \<^verbatim>\<open>null\<close> when the
  process was ended by a signal.\<close>

definition String_code :: "int option \<Rightarrow> string" where
  "String_code code = (case code of None \<Rightarrow> ''null'' | Some i \<Rightarrow> String_int i)"

text \<open>The quoting that \<^verbatim>\<open>JSON.stringify\<close> applies to a string: the quotation mark and the
  backslash are escaped, the control characters get their short escape or, failing
  that, the one of four hexadecimal digits.\<close>

definition hex_digit :: "nat \<Rightarrow> char" where
  "hex_digit d = ''0123456789abcdef'' ! d"

definition JSON_escape :: "char \<Rightarrow> string" where
  "JSON_escape c =
     (if c = CHR 0x22 then [CHR 0x5C, CHR 0x22]
      else if c = CHR 0x5C then [CHR 0x5C, CHR 0x5C]
      else if c = CHR 0x08 then [CHR 0x5C, CHR ''b'']
      else if c = CHR 0x09 then [CHR 0x5C, CHR ''t'']
      else if c = CHR 0x0A then [CHR 0x5C, CHR ''n'']
      else if c = CHR 0x0C then [CHR 0x5C, CHR ''f'']
      else if c = CHR 0x0D then [CHR 0x5C, CHR ''r'']
      else if (of_char c :: nat) < 32
        then [CHR 0x5C, CHR ''u'', CHR ''0'', CHR ''0'',
              hex_digit ((of_char c :: nat) div 16), hex_digit ((of_char c :: nat) mod 16)]
      else [c])"

definition JSON_string :: "string \<Rightarrow> string" where
  "JSON_string s = [CHR 0x22] @ concat (map JSON_escape s) @ [CHR 0x22]"

subsection \<open>Paths and versions\<close>

text \<open>
  Modelled from the spec: \<^verbatim>\<open>Path.join\<close> of the module \<^verbatim>\<open>#path\<close>, which is not among the
  sources. The specification lays an installation out as
  \<^verbatim>\<open><root>/<version>/node_modules/typescript/lib/...\<close>: the segments are joined with a
  slash.
\<close>

fun Path_join :: "string list \<Rightarrow> string" where
  "Path_join [] = ''.''"
| "Path_join [p] = p"
| "Path_join (p # ps) = p @ ''/'' @ Path_join ps"

text \<open>
  Modelled from the spec: the version comparator \<^verbatim>\<open>Version.satisfies\<close>, whose file
  (\<^verbatim>\<open>Version.js\<close>) is not among the sources. The definitions from here to
  \<open>Version_satisfies\<close> are its parts: a version string is cut at the dots, every piece is
  read as a decimal number, and the numbers are compared with those of the boundary.
\<close>

text \<open>\<^verbatim>\<open>s.split(c)\<close> for a separator of one character.\<close>

fun split_at :: "char \<Rightarrow> string \<Rightarrow> string list" where
  "split_at c [] = [[]]"
| "split_at c (x # xs) =
     (if x = c then [] # split_at c xs
      else (case split_at c xs of
              [] \<Rightarrow> [[x]]
            | piece # pieces \<Rightarrow> (x # piece) # pieces))"

definition digit_value :: "char \<Rightarrow> nat option" where
  "digit_value c =
     map_of [(CHR ''0'', 0), (CHR ''1'', 1), (CHR ''2'', 2), (CHR ''3'', 3), (CHR ''4'', 4),
             (CHR ''5'', 5), (CHR ''6'', 6), (CHR ''7'', 7), (CHR ''8'', 8), (CHR ''9'', 9)] c"

fun decimal_value_from :: "nat \<Rightarrow> string \<Rightarrow> nat option" where
  "decimal_value_from acc [] = Some acc"
| "decimal_value_from acc (c # cs) =
     (case digit_value c of
        None \<Rightarrow> None
      | Some d \<Rightarrow> decimal_value_from (acc * 10 + d) cs)"

definition decimal_value :: "string \<Rightarrow> nat option" where
  "decimal_value s = (if s = [] then None else decimal_value_from 0 s)"

definition version_numbers :: "string \<Rightarrow> nat list option" where
  "version_numbers s = those (map decimal_value (split_at (CHR ''.'') s))"

text \<open>A version may carry a pre-release tag behind a hyphen, as in \<open>5.4.0-beta\<close>: the
  release is what stands before the first hyphen.\<close>

definition release :: "string \<Rightarrow> string" where
  "release s = takeWhile (\<lambda>c. c \<noteq> CHR ''-'') s"

definition prerelease :: "string \<Rightarrow> bool" where
  "prerelease s = (CHR ''-'' \<in> set s)"

text \<open>Component by component, a missing component counting as zero: \<open>5.3\<close> stands for
  \<open>5.3.0\<close>.\<close>

fun at_or_above :: "nat list \<Rightarrow> nat list \<Rightarrow> bool" where
  "at_or_above ss [] = True"
| "at_or_above [] (t # ts) = (t = 0 \<and> at_or_above [] ts)"
| "at_or_above (s # ss) (t # ts) = (t < s \<or> (s = t \<and> at_or_above ss ts))"

text \<open>
  Modelled from the spec: \<^verbatim>\<open>Version.satisfies\<close>, whose file (\<^verbatim>\<open>Version.js\<close>) is not
  among the sources. The specification describes the comparator as one that "compares a
  concrete version string against a semantic boundary" and uses it as "versions at or above
  the 5.3.0 boundary". A concrete version is a dotted sequence of decimal numbers with an
  optional pre-release tag. In the order of semantic versions a pre-release stands below
  its release, so a source with a tag is at or above the boundary when its numbers are
  strictly above it. The specification says nothing about strings of another form, for
  which the comparison is taken to fail.
\<close>

definition Version_satisfies :: "string \<Rightarrow> string \<Rightarrow> bool" where
  "Version_satisfies source target =
     (case version_numbers (release source) of
        None \<Rightarrow> False
      | Some ss \<Rightarrow>
          (case version_numbers target of
             None \<Rightarrow> False
           | Some ts \<Rightarrow>
               if prerelease source then at_or_above ss ts \<and> \<not> at_or_above ts ss
               else at_or_above ss ts))"

subsection \<open>The file system and the lock\<close>

text \<open>
  What the worker touches on disk: the directories that exist, the files with their
  content, and the paths that carry a lock indicator.
\<close>

record file_system =
  dirs :: "string set"
  files :: "string \<rightharpoonup> string"
  locks :: "string set"

datatype lock_wait = Cleared | Still_locked string

datatype spawn_event =
    error_event js_error
  | close_event "int option" "string option"

text \<open>
  How a call ends: it returns a value, it throws, or it never returns because it awaits a
  promise that is never settled.
\<close>

datatype 'a completion = Returned 'a | Thrown js_error | Pending

text \<open>
  An asynchronous method is a function from the file system and the effects so far to its
  completion, the file system it leaves and the effects extended.
\<close>

type_synonym 'a io =
  "file_system \<times> effect list \<Rightarrow> 'a completion \<times> file_system \<times> effect list"

text \<open>
  What the outside world decides during one call of \<^verbatim>\<open>ensure\<close>: whether a lock held by
  another party clears while \<^verbatim>\<open>Lock.isLocked\<close> polls, whether each file operation fails
  (and with which error), and which events the spawned \<^verbatim>\<open>npm\<close> process emits, in the
  order of their arrival.

  The last two fields belong to a call that the types of the program do not foresee:
  \<^verbatim>\<open>install\<close> hands the result of \<^verbatim>\<open>resolveTag\<close> to the worker, and that result can be
  an inherited member instead of a string. What \<^verbatim>\<open>String\<close> makes of such a member is the
  engine's text for it, and what \<^verbatim>\<open>ensure\<close> does with it depends on \<^verbatim>\<open>Path.join\<close>,
  which is not among the sources; both are given here, by the name of the member.
\<close>

record outcomes =
  lock_wait :: lock_wait
  mkdir_fails :: "js_error option"
  descriptor_fails :: "js_error option"
  npm_events :: "spawn_event list"
  ready_fails :: "js_error option"
  String_inherited :: "string \<Rightarrow> string"
  ensure_inherited :: "string \<Rightarrow> string option io"

definition return_io :: "'a \<Rightarrow> 'a io" where
  "return_io a = (\<lambda>(fs, t). (Returned a, fs, t))"

definition throw_io :: "js_error \<Rightarrow> 'a io" where
  "throw_io e = (\<lambda>(fs, t). (Thrown e, fs, t))"

definition bind_io :: "'a io \<Rightarrow> ('a \<Rightarrow> 'b io) \<Rightarrow> 'b io" where
  "bind_io m k =
     (\<lambda>s. case m s of
        (Returned a, fs, t) \<Rightarrow> k a (fs, t)
      | (Thrown e, fs, t) \<Rightarrow> (Thrown e, fs, t)
      | (Pending, fs, t) \<Rightarrow> (Pending, fs, t))"

definition try_catch :: "'a io \<Rightarrow> (js_error \<Rightarrow> 'a io) \<Rightarrow> 'a io" where
  "try_catch m handler =
     (\<lambda>s. case m s of
        (Returned a, fs, t) \<Rightarrow> (Returned a, fs, t)
      | (Thrown e, fs, t) \<Rightarrow> handler e (fs, t)
      | (Pending, fs, t) \<Rightarrow> (Pending, fs, t))"

definition perform :: "effect \<Rightarrow> unit io" where
  "perform x = (\<lambda>(fs, t). (Returned (), fs, t @ [x]))"

definition existsSync :: "string \<Rightarrow> bool io" where
  "existsSync path = (\<lambda>(fs, t). (Returned (files fs path \<noteq> None), fs, t))"

definition fs_mkdir :: "js_error option \<Rightarrow> string \<Rightarrow> unit io" where
  "fs_mkdir fails path =
     (\<lambda>(fs, t). case fails of
        Some e \<Rightarrow> (Thrown e, fs, t @ [Fs_mkdir path])
      | None \<Rightarrow> (Returned (), fs\<lparr>dirs := insert path (dirs fs)\<rparr>, t @ [Fs_mkdir path]))"

definition fs_writeFile :: "js_error option \<Rightarrow> string \<Rightarrow> string \<Rightarrow> unit io" where
  "fs_writeFile fails path content =
     (\<lambda>(fs, t). case fails of
        Some e \<Rightarrow> (Thrown e, fs, t @ [Fs_writeFile path content])
      | None \<Rightarrow>
          (Returned (), fs\<lparr>files := (files fs)(path \<mapsto> content)\<rparr>, t @ [Fs_writeFile path content]))"

text \<open>
  Modelled from the spec: the class \<^verbatim>\<open>Lock\<close>, whose file (\<^verbatim>\<open>Lock.js\<close>) is not among the
  sources. By the specification \<^verbatim>\<open>Lock.isLocked\<close> "returns false as soon as the indicator
  disappears or was never present" and returns true "if the indicator is present when the
  timeout elapses or the cancellation signal fires, reporting a diagnostic in that case";
  the constructor "atomically claims the path as locked" and must "fail loudly" when the
  path is claimed already; \<^verbatim>\<open>release\<close> "removes the lock indicator". The polling takes
  time during which another process may release its lock: whether it does is the
  \<open>lock_wait\<close> of the outcomes, together with the text that is reported if it does not.
  The report is a call of the \<^verbatim>\<open>onDiagnostic\<close> option; what that call throws,
  \<^verbatim>\<open>Lock.isLocked\<close> throws.
\<close>

definition Lock_isLocked :: "lock_wait \<Rightarrow> string \<Rightarrow> (string \<Rightarrow> unit io) \<Rightarrow> bool io" where
  "Lock_isLocked wait path onDiagnostic_option =
     (\<lambda>(fs, t).
        if path \<notin> locks fs then (Returned False, fs, t)
        else (case wait of
                Cleared \<Rightarrow> (Returned False, fs\<lparr>locks := locks fs - {path}\<rparr>, t)
              | Still_locked text \<Rightarrow>
                  bind_io (onDiagnostic_option text) (\<lambda>_. return_io True) (fs, t)))"

text \<open>
  Modelled from the spec: the constructor of \<^verbatim>\<open>Lock\<close>, which claims the path and
  fails when the path is claimed already. The lock object is identified with its path.
\<close>

definition new_Lock :: "string \<Rightarrow> string io" where
  "new_Lock path =
     (\<lambda>(fs, t).
        if path \<in> locks fs
        then (Thrown (Error (''The path is locked already: '' @ path)), fs, t @ [Lock_new path])
        else (Returned path, fs\<lparr>locks := insert path (locks fs)\<rparr>, t @ [Lock_new path]))"

text \<open>
  Modelled from the spec: \<^verbatim>\<open>lock.release()\<close>, which removes the lock indicator.
\<close>

definition lock_release :: "string \<Rightarrow> unit io" where
  "lock_release lock =
     (\<lambda>(fs, t). (Returned (), fs\<lparr>locks := locks fs - {lock}\<rparr>, t @ [Lock_release lock]))"

subsection \<open>\<^verbatim>\<open>CompilerModuleWorker\<close>\<close>

text \<open>
  The private fields of the class. \<^verbatim>\<open>onDiagnostic\<close> is the callback given to the
  constructor; a caller that leaves the argument out leaves the field \<^verbatim>\<open>undefined\<close>,
  which is \<open>None\<close> here. \<^verbatim>\<open>Environment.timeout\<close>, a number of seconds, is taken as a
  natural number.
\<close>

datatype diagnostic_sink = Diagnostic_sink

record CompilerModuleWorker =
  cachePath :: string
  onDiagnostic :: "diagnostic_sink option"
  readyFileName :: string
  timeout :: nat

definition new_CompilerModuleWorker ::
  "nat \<Rightarrow> string \<Rightarrow> diagnostic_sink option \<Rightarrow> CompilerModuleWorker" where
  "new_CompilerModuleWorker Environment_timeout cachePath0 onDiagnostic0 =
     \<lparr>cachePath = cachePath0, onDiagnostic = onDiagnostic0,
      readyFileName = ''__ready__'', timeout = Environment_timeout * 1000\<rparr>"

text \<open>The call \<^verbatim>\<open>this.#onDiagnostic(d)\<close>.\<close>

definition call_onDiagnostic :: "CompilerModuleWorker \<Rightarrow> diagnostic \<Rightarrow> unit io" where
  "call_onDiagnostic w d =
     (case onDiagnostic w of
        None \<Rightarrow> throw_io (TypeError ''this.#onDiagnostic is not a function'')
      | Some _ \<Rightarrow> perform (OnDiagnostic d))"

definition failed_to_install :: "string \<Rightarrow> string" where
  "failed_to_install compilerVersion =
     ''Failed to install '' @ [CHR 0x27] @ ''typescript@'' @ compilerVersion @ [CHR 0x27] @ ''.''"

text \<open>\<^verbatim>\<open>#getPackageJson\<close>: the text \<^verbatim>\<open>JSON.stringify(packageJson, null, 2)\<close>.\<close>

definition getPackageJson :: "string \<Rightarrow> string" where
  "getPackageJson version =
     concat
      [''{'', [CHR 0x0A],
       ''  '', JSON_string ''name'', '': '', JSON_string ''@tstyche/typescript'', '','', [CHR 0x0A],
       ''  '', JSON_string ''version'', '': '', JSON_string version, '','', [CHR 0x0A],
       ''  '', JSON_string ''description'', '': '',
         JSON_string ''Do not change. This package was generated by TSTyche'', '','', [CHR 0x0A],
       ''  '', JSON_string ''private'', '': '', ''true'', '','', [CHR 0x0A],
       ''  '', JSON_string ''license'', '': '', JSON_string ''MIT'', '','', [CHR 0x0A],
       ''  '', JSON_string ''dependencies'', '': '', ''{'', [CHR 0x0A],
       ''    '', JSON_string ''typescript'', '': '', JSON_string version, [CHR 0x0A],
       ''  }'', [CHR 0x0A],
       ''}'']"

text \<open>
  \<^verbatim>\<open>#installPackage\<close>. The two listeners call \<^verbatim>\<open>resolve\<close> and \<^verbatim>\<open>reject\<close>; the
  \<^verbatim>\<open>close\<close> listener does not return after \<^verbatim>\<open>resolve()\<close> and goes on to the calls
  of \<^verbatim>\<open>reject\<close> below it. A promise is settled by the first call and ignores the later
  ones.
\<close>

datatype settle = resolve | reject js_error

datatype promise_state = pending | fulfilled | rejected js_error

fun on_event :: "CompilerModuleWorker \<Rightarrow> spawn_event \<Rightarrow> settle list" where
  "on_event w (error_event error) = [reject error]"
| "on_event w (close_event code signal) =
     (if code = Some 0 then [resolve] else []) @
     (if signal \<noteq> None
      then [reject (Error (''Setup timeout of '' @ decimal (timeout w div 1000) @ ''s was exceeded.''))]
      else []) @
     [reject (Error (''Process exited with code '' @ String_code code @ ''.''))]"

fun settle_promise :: "promise_state \<Rightarrow> settle \<Rightarrow> promise_state" where
  "settle_promise pending resolve = fulfilled"
| "settle_promise pending (reject e) = rejected e"
| "settle_promise p _ = p"

definition await :: "promise_state \<Rightarrow> unit io" where
  "await p =
     (\<lambda>(fs, t). case p of
        pending \<Rightarrow> (Pending, fs, t)
      | fulfilled \<Rightarrow> (Returned (), fs, t)
      | rejected e \<Rightarrow> (Thrown e, fs, t))"

definition installPackage :: "CompilerModuleWorker \<Rightarrow> spawn_event list \<Rightarrow> string \<Rightarrow> unit io" where
  "installPackage w events cwd =
     bind_io
      (perform (Spawn ''npm''
         [''install'', ''--ignore-scripts'', ''--no-bin-links'', ''--no-package-lock''] cwd))
      (\<lambda>_. await (foldl settle_promise pending (concat (map (on_event w) events))))"

text \<open>The body of the \<^verbatim>\<open>try\<close> block of \<^verbatim>\<open>ensure\<close>.\<close>

definition installation ::
  "CompilerModuleWorker \<Rightarrow> outcomes \<Rightarrow> string \<Rightarrow> string \<Rightarrow> string \<Rightarrow> unit io" where
  "installation w out compilerVersion installationPath readyFilePath =
     bind_io (fs_mkdir (mkdir_fails out) installationPath) (\<lambda>_.
     bind_io (new_Lock installationPath) (\<lambda>lock.
     bind_io (fs_writeFile (descriptor_fails out)
                (Path_join [installationPath, ''package.json''])
                (getPackageJson compilerVersion)) (\<lambda>_.
     bind_io (installPackage w (npm_events out) installationPath) (\<lambda>_.
     bind_io (fs_writeFile (ready_fails out) readyFilePath []) (\<lambda>_.
     lock_release lock)))))"

definition ensure :: "CompilerModuleWorker \<Rightarrow> outcomes \<Rightarrow> string \<Rightarrow> string option io" where
  "ensure w out compilerVersion =
     (let installationPath = Path_join [cachePath w, compilerVersion];
          readyFilePath = Path_join [installationPath, readyFileName w];
          tsserverFilePath =
            Path_join [installationPath, ''node_modules'', ''typescript'', ''lib'',
                       ''tsserverlibrary.js''];
          typescriptFilePath =
            Path_join [installationPath, ''node_modules'', ''typescript'', ''lib'',
                       ''typescript.js'']
      in
      bind_io
       (Lock_isLocked (lock_wait out) installationPath
          (\<lambda>text. call_onDiagnostic w
                     (Diagnostic_error [failed_to_install compilerVersion, text])))
       (\<lambda>locked.
          if locked then return_io None
          else
            bind_io (existsSync readyFilePath) (\<lambda>ready.
            bind_io
             (if \<not> ready
              then
                bind_io (perform (Dispatch (store_info compilerVersion installationPath))) (\<lambda>_.
                try_catch
                 (installation w out compilerVersion installationPath readyFilePath)
                 (\<lambda>error. call_onDiagnostic w
                             (Diagnostic_fromError (failed_to_install compilerVersion) error)))
              else return_io ())
             (\<lambda>_.
                if Version_satisfies compilerVersion ''5.3''
                then return_io (Some typescriptFilePath)
                else return_io (Some tsserverFilePath)))))"

subsection \<open>\<^verbatim>\<open>StoreService\<close>\<close>

text \<open>
  The private fields of the class that the methods below read. The constructor builds the
  worker from the cache path alone, so the worker's \<^verbatim>\<open>onDiagnostic\<close> is undefined.
  \<^verbatim>\<open>Environment.storePath\<close> and \<^verbatim>\<open>Environment.timeout\<close> are the arguments of the
  constructor. The methods \<^verbatim>\<open>load\<close> and \<^verbatim>\<open>prune\<close>, which load a module into
  the running process and delete the cache, are left out.
\<close>

record StoreService =
  store_cachePath :: string
  compilerModuleWorker :: CompilerModuleWorker
  manifest :: "Manifest option"

definition new_StoreService :: "string \<Rightarrow> nat \<Rightarrow> StoreService" where
  "new_StoreService Environment_storePath Environment_timeout =
     \<lparr>store_cachePath = Environment_storePath,
      compilerModuleWorker =
        new_CompilerModuleWorker Environment_timeout Environment_storePath None,
      manifest = None\<rparr>"

text \<open>The private method \<^verbatim>\<open>#onDiagnostic\<close> of the service dispatches a
  \<^verbatim>\<open>store:error\<close> event.\<close>

definition store_onDiagnostic :: "diagnostic \<Rightarrow> effect" where
  "store_onDiagnostic d = Dispatch (store_error [d])"

definition not_open :: diagnostic where
  "not_open =
     Diagnostic_error
      [''Store manifest is not open. Call '' @ [CHR 0x27] @ ''StoreService.open()'' @ [CHR 0x27]
       @ '' first.'']"

definition may_be_outdated :: "string \<Rightarrow> diagnostic" where
  "may_be_outdated tag =
     Diagnostic_warning
      [''Failed to update metadata of the '' @ [CHR 0x27] @ ''typescript'' @ [CHR 0x27]
         @ '' package from the registry.'',
       ''The resolution of the '' @ [CHR 0x27] @ tag @ [CHR 0x27] @ '' tag may be outdated.'']"

definition supportedTags :: "StoreService \<Rightarrow> string list \<times> effect list" where
  "supportedTags s =
     (case manifest s of
        None \<Rightarrow> ([], [store_onDiagnostic not_open])
      | Some m \<Rightarrow> (sort (Object_keys (resolutions m) @ versions m), []))"

text \<open>\<open>now\<close> is the clock that \<^verbatim>\<open>isOutdated\<close> reads.\<close>

definition resolveTag :: "StoreService \<Rightarrow> int \<Rightarrow> string \<Rightarrow> js_value option \<times> effect list" where
  "resolveTag s now tag =
     (case manifest s of
        None \<Rightarrow> (None, [store_onDiagnostic not_open])
      | Some m \<Rightarrow>
          if tag \<in> set (versions m) then (Some (js_string tag), [])
          else
            (let version = get_property (resolutions m) tag
             in (version,
                 if isOutdated now m 60
                    \<and> tag \<in> set (slice_last 5 (Object_keys (resolutions m)))
                 then [store_onDiagnostic (may_be_outdated tag)]
                 else [])))"

text \<open>In \<^verbatim>\<open>validateTag\<close> the read \<^verbatim>\<open>resolutions["latest"]\<close> is the lookup of the own key:
  \<^verbatim>\<open>latest\<close> is not a property of \<^verbatim>\<open>Object.prototype\<close>.\<close>

definition validateTag :: "StoreService \<Rightarrow> string \<Rightarrow> bool \<times> effect list" where
  "validateTag s tag =
     (case manifest s of
        None \<Rightarrow> (False, [store_onDiagnostic not_open])
      | Some m \<Rightarrow>
          if tag \<in> set (versions m) \<or> has_property tag (resolutions m) then (True, [])
          else
            (False,
             case map_of (resolutions m) ''latest'' of
               None \<Rightarrow> []
             | Some latest \<Rightarrow>
                 if startsWith tag (take 3 latest)
                 then [store_onDiagnostic (may_be_outdated tag)]
                 else []))"

text \<open>
  \<^verbatim>\<open>install\<close>. \<open>now\<close> is the clock at the resolution of the tag, \<open>used\<close> the later
  reading \<^verbatim>\<open>Date.now()\<close> that is stored in \<^verbatim>\<open>lastUsed\<close>. The effects of
  \<^verbatim>\<open>resolveTag\<close> and of the worker follow each other in one list. The resolved
  \<^verbatim>\<open>version\<close> appears as text in the diagnostic and as the key of \<^verbatim>\<open>lastUsed\<close>.
\<close>

definition version_text :: "outcomes \<Rightarrow> js_value \<Rightarrow> string" where
  "version_text out version =
     (case version of
        js_string v \<Rightarrow> v
      | js_inherited name \<Rightarrow> String_inherited out name)"

definition install ::
  "StoreService \<Rightarrow> int \<Rightarrow> int \<Rightarrow> outcomes \<Rightarrow> string \<Rightarrow> file_system
     \<Rightarrow> string option completion \<times> StoreService \<times> file_system \<times> effect list" where
  "install s now used out tag fs =
     (case manifest s of
        None \<Rightarrow> (Returned None, s, fs, [store_onDiagnostic not_open])
      | Some m \<Rightarrow>
          (case resolveTag s now tag of
             (None, t1) \<Rightarrow>
               (Returned None, s, fs,
                t1 @ [store_onDiagnostic
                        (Diagnostic_error
                          [''Cannot add the '' @ [CHR 0x27] @ ''typescript'' @ [CHR 0x27]
                           @ '' package for the '' @ [CHR 0x27] @ tag @ [CHR 0x27] @ '' tag.''])])
           | (Some version, t1) \<Rightarrow>
               (case (case version of
                        js_string v \<Rightarrow> ensure (compilerModuleWorker s) out v (fs, t1)
                      | js_inherited name \<Rightarrow> ensure_inherited out name (fs, t1)) of
                  (Pending, fs', t2) \<Rightarrow> (Pending, s, fs', t2)
                | (Thrown error, fs', t2) \<Rightarrow>
                    (Returned None, s, fs',
                     t2 @ [store_onDiagnostic
                             (Diagnostic_fromError
                               (failed_to_install (version_text out version)) error)])
                | (Returned None, fs', t2) \<Rightarrow> (Returned None, s, fs', t2)
                | (Returned (Some modulePath), fs', t2) \<Rightarrow>
                    (Returned (Some modulePath),
                     s\<lparr>manifest :=
                         Some (m\<lparr>lastUsed :=
                                   Some ((case lastUsed m of None \<Rightarrow> Map.empty | Some u \<Rightarrow> u)
                                         (version_text out version \<mapsto> used))\<rparr>)\<rparr>,
                     fs', t2))))"

text \<open>
  \<^verbatim>\<open>open\<close> and \<^verbatim>\<open>update\<close> hand over to the \<^verbatim>\<open>ManifestWorker\<close>, which is not among
  the sources: what its \<^verbatim>\<open>open\<close> returns and what its \<^verbatim>\<open>update\<close> does to the manifest
  are arguments.
\<close>

definition open_store ::
  "StoreService \<Rightarrow> Manifest option completion \<times> effect list
     \<Rightarrow> unit completion \<times> StoreService \<times> effect list" where
  "open_store s ManifestWorker_open =
     (if manifest s \<noteq> None then (Returned (), s, [])
      else
        (case ManifestWorker_open of
           (Returned m, t) \<Rightarrow> (Returned (), s\<lparr>manifest := m\<rparr>, t)
         | (Thrown e, t) \<Rightarrow> (Thrown e, s, t)
         | (Pending, t) \<Rightarrow> (Pending, s, t)))"

definition update ::
  "StoreService \<Rightarrow> (Manifest \<Rightarrow> unit completion \<times> Manifest \<times> effect list)
     \<Rightarrow> unit completion \<times> StoreService \<times> effect list" where
  "update s ManifestWorker_update =
     (case manifest s of
        None \<Rightarrow> (Returned (), s, [store_onDiagnostic not_open])
      | Some m \<Rightarrow>
          (case ManifestWorker_update m of
             (c, m', t) \<Rightarrow> (c, s\<lparr>manifest := Some m'\<rparr>, t)))"

subsection \<open>Reading a run, and the inputs of the examples\<close>

definition completion_of :: "'a completion \<times> file_system \<times> effect list \<Rightarrow> 'a completion" where
  "completion_of run = fst run"

definition disk_of :: "'a completion \<times> file_system \<times> effect list \<Rightarrow> file_system" where
  "disk_of run = fst (snd run)"

definition effects_of :: "'a completion \<times> file_system \<times> effect list \<Rightarrow> effect list" where
  "effects_of run = snd (snd run)"

text \<open>The diagnostics among the effects: those handed to a worker's callback and those
  dispatched as \<^verbatim>\<open>store:error\<close>.\<close>

fun diagnostics_of :: "effect list \<Rightarrow> diagnostic list" where
  "diagnostics_of [] = []"
| "diagnostics_of (OnDiagnostic d # xs) = d # diagnostics_of xs"
| "diagnostics_of (Dispatch (store_error ds) # xs) = ds @ diagnostics_of xs"
| "diagnostics_of (x # xs) = diagnostics_of xs"

text \<open>A worker on the store \<^verbatim>\<open>/store\<close> with a callback and a timeout of 30 seconds, a
  disk with nothing on it, and an \<^verbatim>\<open>npm\<close> process that closes with a given exit code
  and signal while every file operation succeeds (and a worker that throws when it is handed
  a function for a version).\<close>

definition example_worker :: CompilerModuleWorker where
  "example_worker = new_CompilerModuleWorker 30 ''/store'' (Some Diagnostic_sink)"

definition empty_disk :: file_system where
  "empty_disk = \<lparr>dirs = {}, files = Map.empty, locks = {}\<rparr>"

definition npm_closes :: "int option \<Rightarrow> string option \<Rightarrow> outcomes" where
  "npm_closes code signal =
     \<lparr>lock_wait = Cleared, mkdir_fails = None, descriptor_fails = None,
      npm_events = [close_event code signal], ready_fails = None,
      String_inherited = (\<lambda>name. ''function '' @ name @ ''() { [native code] }''),
      ensure_inherited =
        (\<lambda>name. throw_io (TypeError ''The path argument must be of type string''))\<rparr>"

text \<open>A disk on which the given version is installed: its ready marker exists.\<close>

definition installed_disk :: "string \<Rightarrow> file_system" where
  "installed_disk version =
     \<lparr>dirs = {Path_join [''/store'', version]},
      files = [Path_join [''/store'', version, ''__ready__''] \<mapsto> []],
      locks = {}\<rparr>"

text \<open>An open store whose manifest was fetched at time 1000 and has eight resolutions.\<close>

definition example_manifest :: Manifest where
  "example_manifest =
     \<lparr>resolutions =
        [(''4.9'', ''4.9.5''), (''5.0'', ''5.0.4''), (''5.1'', ''5.1.6''), (''5.2'', ''5.2.2''),
         (''5.3'', ''5.3.2''), (''beta'', ''5.4.0-beta''), (''latest'', ''5.3.2''),
         (''next'', ''5.4.0-dev.20240112'')],
      versions = [''4.9.5'', ''5.0.4'', ''5.1.6'', ''5.2.2'', ''5.3.2''],
      lastFetched = 1000,
      lastUsed = None\<rparr>"

definition example_store :: StoreService where
  "example_store = (new_StoreService ''/store'' 30)\<lparr>manifest := Some example_manifest\<rparr>"

section \<open>Auxiliary facts\<close>

lemmas io_defs =
  bind_io_def return_io_def throw_io_def try_catch_def perform_def existsSync_def
  fs_mkdir_def fs_writeFile_def Lock_isLocked_def new_Lock_def lock_release_def
  call_onDiagnostic_def await_def

lemmas run_defs = completion_of_def disk_of_def effects_of_def

lemmas example_defs =
  example_worker_def empty_disk_def npm_closes_def installed_disk_def example_manifest_def
  example_store_def new_StoreService_def new_CompilerModuleWorker_def

subsection \<open>Arrays and dictionaries\<close>



lemma map_of_Object_keys:
  "tag \<in> set (Object_keys obj) \<longleftrightarrow> map_of obj tag \<noteq> None"
  by (simp add: Object_keys_def map_of_eq_None_iff)

subsection \<open>Decimal numbers and the version boundary\<close>

lemma digit_value_digit_char: "d < 10 \<Longrightarrow> digit_value (digit_char d) = Some d"
proof -
  assume "d < 10"
  then consider "d = 0" | "d = 1" | "d = 2" | "d = 3" | "d = 4" | "d = 5" | "d = 6" | "d = 7"
    | "d = 8" | "d = 9"
    by atomize_elim arith
  then show ?thesis
    by cases (simp_all add: digit_value_def digit_char_def)
qed

lemma digit_char_not_dot: "d < 10 \<Longrightarrow> digit_char d \<noteq> CHR ''.''"
  using digit_value_digit_char [of d] by (auto simp: digit_value_def)

lemma decimal_value_from_append:
  "decimal_value_from acc (xs @ ys) =
     (case decimal_value_from acc xs of None \<Rightarrow> None | Some a \<Rightarrow> decimal_value_from a ys)"
  by (induction xs arbitrary: acc) (simp_all split: option.splits)

lemma decimal_not_empty: "decimal n \<noteq> []"
  by (subst decimal.simps) simp

lemma decimal_value_from_decimal: "decimal_value_from 0 (decimal n) = Some n"
proof (induction n rule: decimal.induct)
  case (1 n)
  show ?case
  proof (cases "n < 10")
    case True
    then show ?thesis
      by (subst decimal.simps) (simp add: digit_value_digit_char)
  next
    case False
    with 1 have "decimal_value_from 0 (decimal (n div 10)) = Some (n div 10)"
      by simp
    then show ?thesis
      using False
      by (subst decimal.simps) (simp add: decimal_value_from_append digit_value_digit_char)
  qed
qed

lemma decimal_value_decimal: "decimal_value (decimal n) = Some n"
  by (simp add: decimal_value_def decimal_not_empty decimal_value_from_decimal)

lemma decimal_no_dot: "CHR ''.'' \<notin> set (decimal n)"
proof (induction n rule: decimal.induct)
  case (1 n)
  show ?case
  proof (cases "n < 10")
    case True
    then show ?thesis
      using digit_char_not_dot [of n] by (subst decimal.simps) auto
  next
    case False
    with 1 have "CHR ''.'' \<notin> set (decimal (n div 10))" by simp
    moreover have "digit_char (n mod 10) \<noteq> CHR ''.''"
      by (rule digit_char_not_dot) simp
    ultimately show ?thesis
      using False by (subst decimal.simps) auto
  qed
qed

lemma split_at_no_separator: "c \<notin> set xs \<Longrightarrow> split_at c xs = [xs]"
  by (induction xs) auto

lemma split_at_first: "c \<notin> set xs \<Longrightarrow> split_at c (xs @ c # ys) = xs # split_at c ys"
  by (induction xs) auto

lemma version_numbers_dotted:
  "version_numbers (decimal a @ ''.'' @ decimal b @ ''.'' @ decimal c) = Some [a, b, c]"
  by (simp add: version_numbers_def split_at_first split_at_no_separator decimal_no_dot
      decimal_value_decimal)

lemma version_numbers_boundary: "version_numbers ''5.3'' = Some [5, 3]"
  by (simp add: version_numbers_def decimal_value_def digit_value_def)

lemma decimal_digits: "c \<in> set (decimal n) \<Longrightarrow> digit_value c \<noteq> None"
proof (induction n rule: decimal.induct)
  case (1 n)
  show ?case
  proof (cases "n < 10")
    case True
    with 1(2) show ?thesis
      by (subst (asm) decimal.simps) (simp add: digit_value_digit_char)
  next
    case False
    have "digit_value (digit_char (n mod 10)) \<noteq> None"
      by (simp add: digit_value_digit_char)
    with 1 False show ?thesis
      by (subst (asm) (2) decimal.simps) auto
  qed
qed

lemma decimal_no_hyphen: "CHR ''-'' \<notin> set (decimal n)"
  using decimal_digits [of "CHR ''-''" n] by (auto simp: digit_value_def)

lemma dotted_no_hyphen:
  "CHR ''-'' \<notin> set (decimal a @ ''.'' @ decimal b @ ''.'' @ decimal c)"
  by (simp add: decimal_no_hyphen)

lemma release_plain: "CHR ''-'' \<notin> set s \<Longrightarrow> release s = s"
  unfolding release_def by (induction s) auto

lemma release_tagged: "CHR ''-'' \<notin> set s \<Longrightarrow> release (s @ ''-'' @ tag) = s"
  unfolding release_def by (induction s) auto

lemma Version_satisfies_boundary:
  "Version_satisfies (decimal a @ ''.'' @ decimal b @ ''.'' @ decimal c) ''5.3''
     \<longleftrightarrow> 5 < a \<or> (a = 5 \<and> 3 \<le> b)"
  unfolding Version_satisfies_def release_plain [OF dotted_no_hyphen] version_numbers_dotted
    version_numbers_boundary
  using dotted_no_hyphen [of a b c] by (auto simp: prerelease_def)

lemma Version_satisfies_prerelease:
  "Version_satisfies (decimal a @ ''.'' @ decimal b @ ''.'' @ decimal c @ ''-'' @ tag) ''5.3''
     \<longleftrightarrow> 5 < a \<or> (a = 5 \<and> (3 < b \<or> (b = 3 \<and> 0 < c)))"
proof -
  have "release ((decimal a @ ''.'' @ decimal b @ ''.'' @ decimal c) @ ''-'' @ tag)
          = decimal a @ ''.'' @ decimal b @ ''.'' @ decimal c"
    by (rule release_tagged) (rule dotted_no_hyphen)
  then have "version_numbers
               (release (decimal a @ ''.'' @ decimal b @ ''.'' @ decimal c @ ''-'' @ tag))
             = Some [a, b, c]"
    using version_numbers_dotted [of a b c] by simp
  moreover have "prerelease (decimal a @ ''.'' @ decimal b @ ''.'' @ decimal c @ ''-'' @ tag)"
    by (simp add: prerelease_def)
  ultimately show ?thesis
    unfolding Version_satisfies_def version_numbers_boundary by auto
qed

lemma decimal_digit: "n < 10 \<Longrightarrow> decimal n = [digit_char n]"
  by (subst decimal.simps) simp

subsection \<open>The promise of \<^verbatim>\<open>#installPackage\<close>\<close>

lemma settle_promise_once: "p \<noteq> pending \<Longrightarrow> settle_promise p c = p"
  by (cases p; cases c) simp_all

lemma settle_promise_settled: "p \<noteq> pending \<Longrightarrow> foldl settle_promise p calls = p"
  by (induction calls) (simp_all add: settle_promise_once)

text \<open>The promise is fulfilled exactly when the first event of the process is \<^verbatim>\<open>close\<close>
  with exit code 0: the calls of \<^verbatim>\<open>reject\<close> that follow \<^verbatim>\<open>resolve()\<close> change
  nothing.\<close>

lemma promise_fulfilled_iff:
  "foldl settle_promise pending (concat (map (on_event w) events)) = fulfilled
     \<longleftrightarrow> (\<exists>signal later. events = close_event (Some 0) signal # later)"
proof (cases events)
  case Nil
  then show ?thesis by simp
next
  case (Cons e later)
  show ?thesis
  proof (cases e)
    case (error_event x)
    with Cons show ?thesis by (simp add: settle_promise_settled)
  next
    case (close_event code signal)
    with Cons show ?thesis
      by (cases "code = Some 0"; cases "signal = None") (auto simp: settle_promise_settled)
  qed
qed

subsection \<open>Runs of \<^verbatim>\<open>ensure\<close>\<close>

lemma ready_not_descriptor:
  "Path_join [p, ''package.json''] \<noteq> Path_join [p, ''__ready__'']"
  "Path_join [p, ''__ready__''] \<noteq> Path_join [p, ''package.json'']"
  by simp_all

lemma ensure_ready:
  assumes "files fs (Path_join [Path_join [cachePath w, V], readyFileName w]) \<noteq> None"
      and "Path_join [cachePath w, V] \<notin> locks fs"
  shows "ensure w out V (fs, t) =
          (Returned (Some (Path_join [Path_join [cachePath w, V], ''node_modules'', ''typescript'',
             ''lib'', if Version_satisfies V ''5.3'' then ''typescript.js''
                      else ''tsserverlibrary.js''])), fs, t)"
  using assms by (auto simp add: ensure_def Let_def io_defs simp del: Path_join.simps)

lemma ensure_path:
  assumes "fst (ensure w out V (fs, t)) = Returned (Some path)"
  shows "path = Path_join [Path_join [cachePath w, V], ''node_modules'', ''typescript'', ''lib'',
      if Version_satisfies V ''5.3'' then ''typescript.js'' else ''tsserverlibrary.js'']"
  using assms
  by (auto simp: ensure_def Let_def bind_io_def return_io_def simp del: Path_join.simps
      split: prod.splits completion.splits if_splits)

text \<open>The try block, outcome by outcome.\<close>

lemma installation_run:
  assumes "p \<notin> locks fs"
  shows "installation w out V p ready (fs, t) =
    (case mkdir_fails out of
       Some e \<Rightarrow> (Thrown e, fs, t @ [Fs_mkdir p])
     | None \<Rightarrow>
        (case descriptor_fails out of
           Some e \<Rightarrow>
             (Thrown e, fs\<lparr>dirs := insert p (dirs fs), locks := insert p (locks fs)\<rparr>,
              t @ [Fs_mkdir p, Lock_new p,
                   Fs_writeFile (Path_join [p, ''package.json'']) (getPackageJson V)])
         | None \<Rightarrow>
            (let fs1 = fs\<lparr>dirs := insert p (dirs fs), locks := insert p (locks fs),
                           files := (files fs)(Path_join [p, ''package.json''] \<mapsto> getPackageJson V)\<rparr>;
                 t1 = t @ [Fs_mkdir p, Lock_new p,
                           Fs_writeFile (Path_join [p, ''package.json'']) (getPackageJson V),
                           Spawn ''npm''
                             [''install'', ''--ignore-scripts'', ''--no-bin-links'',
                              ''--no-package-lock''] p]
             in case foldl settle_promise pending (concat (map (on_event w) (npm_events out))) of
                  pending \<Rightarrow> (Pending, fs1, t1)
                | rejected e \<Rightarrow> (Thrown e, fs1, t1)
                | fulfilled \<Rightarrow>
                    (case ready_fails out of
                       Some e \<Rightarrow> (Thrown e, fs1, t1 @ [Fs_writeFile ready []])
                     | None \<Rightarrow>
                         (Returned (),
                          fs1\<lparr>files := (files fs1)(ready \<mapsto> []), locks := locks fs\<rparr>,
                          t1 @ [Fs_writeFile ready [], Lock_release p])))))"
  using assms
  by (simp add: installation_def installPackage_def io_defs Let_def
      split: option.splits promise_state.splits del: Path_join.simps)



text \<open>A lock that clears while \<^verbatim>\<open>Lock.isLocked\<close> polls, or that was never there, leaves
  a run that starts without the lock.\<close>

lemma ensure_lock_cleared:
  assumes "lock_wait out = Cleared \<or> Path_join [cachePath w, V] \<notin> locks fs"
  shows "ensure w out V (fs, t) =
           ensure w out V (fs\<lparr>locks := locks fs - {Path_join [cachePath w, V]}\<rparr>, t)"
  using assms
  by (auto simp: ensure_def Let_def Lock_isLocked_def bind_io_def simp del: Path_join.simps)

lemma ensure_lock_stuck:
  assumes "lock_wait out = Still_locked text" and "Path_join [cachePath w, V] \<in> locks fs"
  shows "ensure w out V (fs, t) =
           (case onDiagnostic w of
              None \<Rightarrow> (Thrown (TypeError ''this.#onDiagnostic is not a function''), fs, t)
            | Some _ \<Rightarrow>
                (Returned None, fs,
                 t @ [OnDiagnostic (Diagnostic_error [failed_to_install V, text])]))"
  using assms
  by (simp add: ensure_def Let_def io_defs split: option.splits del: Path_join.simps)

lemma ensure_installs:
  assumes "Path_join [cachePath w, V] \<notin> locks fs"
      and "files fs (Path_join [Path_join [cachePath w, V], readyFileName w]) = None"
  shows "ensure w out V (fs, t) =
           (case installation w out V (Path_join [cachePath w, V])
                   (Path_join [Path_join [cachePath w, V], readyFileName w])
                   (fs, t @ [Dispatch (store_info V (Path_join [cachePath w, V]))]) of
              (Returned u, fs', t') \<Rightarrow>
                (Returned (Some (Path_join [Path_join [cachePath w, V], ''node_modules'',
                   ''typescript'', ''lib'', if Version_satisfies V ''5.3'' then ''typescript.js''
                   else ''tsserverlibrary.js''])), fs', t')
            | (Thrown e, fs', t') \<Rightarrow>
                (case onDiagnostic w of
                   None \<Rightarrow> (Thrown (TypeError ''this.#onDiagnostic is not a function''), fs', t')
                 | Some _ \<Rightarrow>
                     (Returned (Some (Path_join [Path_join [cachePath w, V], ''node_modules'',
                        ''typescript'', ''lib'', if Version_satisfies V ''5.3'' then ''typescript.js''
                        else ''tsserverlibrary.js''])), fs',
                      t' @ [OnDiagnostic (Diagnostic_fromError (failed_to_install V) e)]))
            | (Pending, fs', t') \<Rightarrow> (Pending, fs', t'))"
  using assms
  by (simp add: ensure_def Let_def io_defs split: option.splits completion.splits prod.splits
      del: Path_join.simps)


text \<open>Where the lock does not stay and the version is installed already or the installation
  goes through, \<^verbatim>\<open>ensure\<close> returns the entry file.\<close>

lemma ensure_returns_entry:
  assumes lock: "lock_wait out = Cleared \<or> Path_join [cachePath w, V] \<notin> locks fs"
      and ok: "files fs (Path_join [Path_join [cachePath w, V], readyFileName w]) \<noteq> None
               \<or> (mkdir_fails out = None \<and> descriptor_fails out = None
                  \<and> (\<exists>signal later. npm_events out = close_event (Some 0) signal # later)
                  \<and> ready_fails out = None)"
  shows "fst (ensure w out V (fs, t)) =
           Returned (Some (Path_join [Path_join [cachePath w, V], ''node_modules'', ''typescript'',
             ''lib'', if Version_satisfies V ''5.3'' then ''typescript.js''
                      else ''tsserverlibrary.js'']))"
proof -
  define unlocked where "unlocked = fs\<lparr>locks := locks fs - {Path_join [cachePath w, V]}\<rparr>"
  have run: "ensure w out V (fs, t) = ensure w out V (unlocked, t)"
    unfolding unlocked_def using lock by (rule ensure_lock_cleared)
  have free: "Path_join [cachePath w, V] \<notin> locks unlocked"
    by (simp add: unlocked_def del: Path_join.simps)
  have same: "files unlocked = files fs"
    by (simp add: unlocked_def)
  show ?thesis
  proof (cases "files fs (Path_join [Path_join [cachePath w, V], readyFileName w])")
    case (Some content)
    then have "files unlocked (Path_join [Path_join [cachePath w, V], readyFileName w]) \<noteq> None"
      by (simp add: same del: Path_join.simps)
    from ensure_ready [OF this free] show ?thesis
      unfolding run by (simp del: Path_join.simps)
  next
    case None
    with ok have steps: "mkdir_fails out = None" "descriptor_fails out = None"
        "ready_fails out = None"
      and closed: "\<exists>signal later. npm_events out = close_event (Some 0) signal # later"
      by auto
    from closed have promise:
      "foldl settle_promise pending (concat (map (on_event w) (npm_events out))) = fulfilled"
      by (simp only: promise_fulfilled_iff)
    from None have "files unlocked (Path_join [Path_join [cachePath w, V], readyFileName w]) = None"
      by (simp add: same del: Path_join.simps)
    from ensure_installs [OF free this, of out t] show ?thesis
      unfolding run
      by (simp add: installation_run [OF free] steps promise Let_def del: Path_join.simps)
  qed
qed

subsection \<open>Two runs on the empty disk\<close>

text \<open>Version 5.4.2 on a disk without it: once \<^verbatim>\<open>npm\<close> exits with code 0, once with
  code 1.\<close>

lemma example_install_run:
  "ensure example_worker (npm_closes (Some 0) None) ''5.4.2'' (empty_disk, []) =
     (Returned (Some ''/store/5.4.2/node_modules/typescript/lib/typescript.js''),
      \<lparr>dirs = {''/store/5.4.2''},
       files = [''/store/5.4.2/package.json'' \<mapsto> getPackageJson ''5.4.2'',
                ''/store/5.4.2/__ready__'' \<mapsto> []],
       locks = {}\<rparr>,
      [Dispatch (store_info ''5.4.2'' ''/store/5.4.2''),
       Fs_mkdir ''/store/5.4.2'',
       Lock_new ''/store/5.4.2'',
       Fs_writeFile ''/store/5.4.2/package.json'' (getPackageJson ''5.4.2''),
       Spawn ''npm''
         [''install'', ''--ignore-scripts'', ''--no-bin-links'', ''--no-package-lock'']
         ''/store/5.4.2'',
       Fs_writeFile ''/store/5.4.2/__ready__'' [],
       Lock_release ''/store/5.4.2''])"
  by (simp add: ensure_def installation_def installPackage_def Let_def io_defs
      example_defs Version_satisfies_def release_def prerelease_def version_numbers_def
      decimal_value_def digit_value_def)

lemma example_failed_run:
  "ensure example_worker (npm_closes (Some 1) None) ''5.4.2'' (empty_disk, []) =
     (Returned (Some ''/store/5.4.2/node_modules/typescript/lib/typescript.js''),
      \<lparr>dirs = {''/store/5.4.2''},
       files = [''/store/5.4.2/package.json'' \<mapsto> getPackageJson ''5.4.2''],
       locks = {''/store/5.4.2''}\<rparr>,
      [Dispatch (store_info ''5.4.2'' ''/store/5.4.2''),
       Fs_mkdir ''/store/5.4.2'',
       Lock_new ''/store/5.4.2'',
       Fs_writeFile ''/store/5.4.2/package.json'' (getPackageJson ''5.4.2''),
       Spawn ''npm''
         [''install'', ''--ignore-scripts'', ''--no-bin-links'', ''--no-package-lock'']
         ''/store/5.4.2'',
       OnDiagnostic
         (Diagnostic_fromError (failed_to_install ''5.4.2'')
            (Error ''Process exited with code 1.''))])"
  by (simp add: ensure_def installation_def installPackage_def Let_def io_defs
      example_defs Version_satisfies_def release_def prerelease_def version_numbers_def
      decimal_value_def digit_value_def
      String_code_def String_int_def decimal_digit digit_char_def)


section \<open>The claims\<close>

subsection \<open>Tag resolution\<close>

text \<open>
  C5. The claim: \<^verbatim>\<open>resolveTag(tag)\<close> returns the tag when it is one of the manifest's
  versions, otherwise the resolution stored under it when it is a resolution key, otherwise
  \<^verbatim>\<open>undefined\<close>. On the example manifest the tag \<^verbatim>\<open>constructor\<close> is neither a version
  nor a key of \<^verbatim>\<open>resolutions\<close>, and \<^verbatim>\<open>supportedTags\<close> does not list it; yet
  \<^verbatim>\<open>resolveTag\<close> returns the member that \<^verbatim>\<open>resolutions\<close> inherits under that name, a
  function and not a string, without a diagnostic. The tags \<^verbatim>\<open>latest\<close> and
  \<^verbatim>\<open>nightly\<close> behave as claimed.
\<close>

theorem resolveTag_inherited_member:
  "''constructor'' \<notin> set (versions example_manifest)
   \<and> ''constructor'' \<notin> set (Object_keys (resolutions example_manifest))
   \<and> ''constructor'' \<notin> set (fst (supportedTags example_store))
   \<and> resolveTag example_store 1000 ''constructor'' = (Some (js_inherited ''constructor''), [])
   \<and> resolveTag example_store 1000 ''latest'' = (Some (js_string ''5.3.2''), [])
   \<and> resolveTag example_store 1000 ''nightly'' = (None, [])"
  by (simp add: resolveTag_def supportedTags_def isOutdated_def get_property_def
      Object_prototype_def Object_keys_def example_defs)



text \<open>
  C3. The claim: for a tag that is neither a version nor a resolution key,
  \<^verbatim>\<open>validateTag\<close> warns only when the manifest is stale and the tag starts with the first
  three characters of the \<^verbatim>\<open>latest\<close> resolution. The method never asks whether the
  manifest is stale: on the example manifest, read at the very moment it was fetched, the
  tag \<^verbatim>\<open>5.3.9\<close> gets the warning that the metadata could not be updated.
\<close>

theorem fresh_manifest_prefix_warning:
  "\<not> isOutdated 1000 example_manifest 60
   \<and> validateTag example_store ''5.3.9''
       = (False, [store_onDiagnostic (may_be_outdated ''5.3.9'')])"
  by (simp add: validateTag_def isOutdated_def has_property_def Object_prototype_def
      startsWith_def example_defs)

subsection \<open>Before and after \<^verbatim>\<open>open\<close>\<close>






subsection \<open>Installation\<close>

text \<open>
  C1. The claim: when the installation fails, \<^verbatim>\<open>ensure\<close> reports one diagnostic that
  names the version and returns \<^verbatim>\<open>undefined\<close>. On the empty disk, with an \<^verbatim>\<open>npm\<close> that
  exits with code 1, \<^verbatim>\<open>ensure\<close> reports the one diagnostic, leaves no ready marker, and
  returns the path of \<^verbatim>\<open>typescript.js\<close>: after the \<^verbatim>\<open>catch\<close> block the method goes on to
  the selection of the path.
\<close>

theorem failed_install_returns_path:
  "completion_of (ensure example_worker (npm_closes (Some 1) None) ''5.4.2'' (empty_disk, []))
     = Returned (Some ''/store/5.4.2/node_modules/typescript/lib/typescript.js'')
   \<and> diagnostics_of
        (effects_of (ensure example_worker (npm_closes (Some 1) None) ''5.4.2'' (empty_disk, [])))
     = [Diagnostic_fromError (failed_to_install ''5.4.2'') (Error ''Process exited with code 1.'')]
   \<and> files (disk_of (ensure example_worker (npm_closes (Some 1) None) ''5.4.2'' (empty_disk, [])))
        ''/store/5.4.2/__ready__'' = None"
  unfolding example_failed_run run_defs by simp

text \<open>
  C2. The claim: a lock that \<^verbatim>\<open>ensure\<close> constructs is released before \<^verbatim>\<open>ensure\<close>
  returns, whether the installation succeeds or fails. In the same failing run the lock is
  constructed, \<^verbatim>\<open>release\<close> is never called, and \<^verbatim>\<open>ensure\<close> returns with the lock
  indicator still on the disk.
\<close>

theorem failed_install_keeps_lock:
  "Lock_new ''/store/5.4.2''
       \<in> set (effects_of (ensure example_worker (npm_closes (Some 1) None) ''5.4.2'' (empty_disk, [])))
   \<and> Lock_release ''/store/5.4.2''
       \<notin> set (effects_of (ensure example_worker (npm_closes (Some 1) None) ''5.4.2'' (empty_disk, [])))
   \<and> ''/store/5.4.2''
       \<in> locks (disk_of (ensure example_worker (npm_closes (Some 1) None) ''5.4.2'' (empty_disk, [])))
   \<and> (\<exists>path. completion_of
          (ensure example_worker (npm_closes (Some 1) None) ''5.4.2'' (empty_disk, []))
        = Returned path)"
  unfolding example_failed_run run_defs by simp

text \<open>
  C4. In every run of \<^verbatim>\<open>ensure\<close> on a worker built by the constructor, started with no
  effects behind it: if the ready marker is written, then the first event of the \<^verbatim>\<open>npm\<close>
  process was \<^verbatim>\<open>close\<close> with exit code 0, the write is the effect right after the spawn
  of \<^verbatim>\<open>npm\<close>, behind the creation of the directory, the construction of the lock and the
  write of the descriptor, and a release of the lock can only be the one effect that follows
  the write. A release never happens without the write before it. A ready marker that is on
  the disk after the run was there before it, or \<^verbatim>\<open>npm\<close> has exited with code 0.
\<close>

theorem ready_marker_commit_point:
  "let installationPath = Path_join [root, V];
       readyFilePath = Path_join [installationPath, ''__ready__''];
       run = ensure (new_CompilerModuleWorker seconds root sink) out V (fs, [])
   in (Fs_writeFile readyFilePath [] \<in> set (effects_of run) \<longrightarrow>
         (\<exists>signal later. npm_events out = close_event (Some 0) signal # later)
       \<and> (\<exists>after.
             effects_of run =
               [Dispatch (store_info V installationPath),
                Fs_mkdir installationPath,
                Lock_new installationPath,
                Fs_writeFile (Path_join [installationPath, ''package.json'']) (getPackageJson V),
                Spawn ''npm''
                  [''install'', ''--ignore-scripts'', ''--no-bin-links'', ''--no-package-lock'']
                  installationPath,
                Fs_writeFile readyFilePath []] @ after
           \<and> (Lock_release installationPath \<in> set after \<longrightarrow>
                 after = [Lock_release installationPath])))
    \<and> (Lock_release installationPath \<in> set (effects_of run) \<longrightarrow>
         Fs_writeFile readyFilePath [] \<in> set (effects_of run))
    \<and> (files (disk_of run) readyFilePath \<noteq> None \<longrightarrow>
         files fs readyFilePath \<noteq> None
       \<or> (\<exists>signal later. npm_events out = close_event (Some 0) signal # later))"
proof -
  define w where "w = new_CompilerModuleWorker seconds root sink"
  define p where "p = Path_join [root, V]"
  define ready where "ready = Path_join [p, ''__ready__'']"
  define unlocked where "unlocked = fs\<lparr>locks := locks fs - {p}\<rparr>"
  let ?promise = "foldl settle_promise pending (concat (map (on_event w) (npm_events out)))"
  have fields: "cachePath w = root" "readyFileName w = ''__ready__''"
    by (simp_all add: w_def new_CompilerModuleWorker_def)
  have promise: "?promise = fulfilled
          \<longleftrightarrow> (\<exists>signal later. npm_events out = close_event (Some 0) signal # later)"
    by (rule promise_fulfilled_iff)
  have other: "Path_join [p, ''package.json''] \<noteq> ready"
    unfolding ready_def by (rule ready_not_descriptor)
  let ?run = "ensure w out V (fs, [])"
  have "(Fs_writeFile ready [] \<in> set (effects_of ?run) \<longrightarrow>
           ?promise = fulfilled
         \<and> (\<exists>after.
               effects_of ?run =
                 [Dispatch (store_info V p), Fs_mkdir p, Lock_new p,
                  Fs_writeFile (Path_join [p, ''package.json'']) (getPackageJson V),
                  Spawn ''npm''
                    [''install'', ''--ignore-scripts'', ''--no-bin-links'', ''--no-package-lock''] p,
                  Fs_writeFile ready []] @ after
             \<and> (Lock_release p \<in> set after \<longrightarrow> after = [Lock_release p])))
      \<and> (Lock_release p \<in> set (effects_of ?run) \<longrightarrow> Fs_writeFile ready [] \<in> set (effects_of ?run))
      \<and> (files (disk_of ?run) ready \<noteq> None \<longrightarrow> files fs ready \<noteq> None \<or> ?promise = fulfilled)"
  proof (cases "lock_wait out = Cleared \<or> p \<notin> locks fs")
    case False
    then obtain msg where "lock_wait out = Still_locked msg" and "p \<in> locks fs"
      by (cases "lock_wait out") auto
    then have "?run =
        (case onDiagnostic w of
           None \<Rightarrow> (Thrown (TypeError ''this.#onDiagnostic is not a function''), fs, [])
         | Some _ \<Rightarrow>
             (Returned None, fs, [] @ [OnDiagnostic (Diagnostic_error [failed_to_install V, msg])]))"
      unfolding p_def by (intro ensure_lock_stuck) (simp_all only: fields)
    then show ?thesis
      by (simp add: run_defs split: option.splits)
  next
    case True
    then have "?run = ensure w out V (fs\<lparr>locks := locks fs - {Path_join [cachePath w, V]}\<rparr>, [])"
      unfolding p_def by (intro ensure_lock_cleared) (simp only: fields)
    then have run: "?run = ensure w out V (unlocked, [])"
      by (simp only: fields unlocked_def p_def)
    have free: "Path_join [cachePath w, V] \<notin> locks unlocked"
      by (simp add: unlocked_def fields p_def del: Path_join.simps)
    have same: "files unlocked = files fs"
      by (simp add: unlocked_def)
    show ?thesis
    proof (cases "files fs ready")
      case (Some content)
      then have "files unlocked (Path_join [Path_join [cachePath w, V], readyFileName w]) \<noteq> None"
        by (simp add: same fields ready_def p_def del: Path_join.simps)
      from ensure_ready [OF this free, of out "[]"] show ?thesis
        unfolding run using Some by (simp add: run_defs same del: Path_join.simps)
    next
      case None
      then have "files unlocked (Path_join [Path_join [cachePath w, V], readyFileName w]) = None"
        by (simp add: same fields ready_def p_def del: Path_join.simps)
      from ensure_installs [OF free this, of out "[]", unfolded installation_run [OF free],
          unfolded fields, folded p_def, folded ready_def]
      show ?thesis
        unfolding run using None other
        by (simp add: run_defs same Let_def split: option.splits promise_state.splits
            del: Path_join.simps)
    qed
  qed
  then show ?thesis
    by (simp add: Let_def w_def p_def ready_def promise [unfolded w_def] del: Path_join.simps)
qed

theorem ready_marker_commit_point_witness:
  "Fs_writeFile ''/store/5.4.2/__ready__'' []
     \<in> set (effects_of (ensure example_worker (npm_closes (Some 0) None) ''5.4.2'' (empty_disk, [])))
   \<and> Lock_release ''/store/5.4.2''
     \<in> set (effects_of (ensure example_worker (npm_closes (Some 0) None) ''5.4.2'' (empty_disk, [])))
   \<and> files (disk_of (ensure example_worker (npm_closes (Some 0) None) ''5.4.2'' (empty_disk, [])))
        ''/store/5.4.2/__ready__'' \<noteq> None
   \<and> files empty_disk ''/store/5.4.2/__ready__'' = None
   \<and> (\<exists>signal later. npm_events (npm_closes (Some 0) None) = close_event (Some 0) signal # later)
   \<and> effects_of (ensure example_worker (npm_closes (Some 0) None) ''5.4.2'' (empty_disk, []))
       = [Dispatch (store_info ''5.4.2'' ''/store/5.4.2''),
          Fs_mkdir ''/store/5.4.2'',
          Lock_new ''/store/5.4.2'',
          Fs_writeFile ''/store/5.4.2/package.json'' (getPackageJson ''5.4.2''),
          Spawn ''npm''
            [''install'', ''--ignore-scripts'', ''--no-bin-links'', ''--no-package-lock'']
            ''/store/5.4.2'',
          Fs_writeFile ''/store/5.4.2/__ready__'' []] @ [Lock_release ''/store/5.4.2'']"
  using ready_marker_commit_point [of "''/store''" "''5.4.2''" 30 "Some Diagnostic_sink"
      "npm_closes (Some 0) None" empty_disk]
  unfolding example_install_run run_defs
  by (simp add: example_defs)

text \<open>
  C7. For every version string, every path that \<^verbatim>\<open>ensure\<close> returns is the entry file
  that the comparison with \<^verbatim>\<open>5.3\<close> selects under \<^verbatim>\<open>node_modules/typescript/lib\<close> of
  the installation path: \<^verbatim>\<open>typescript.js\<close> where it holds, \<^verbatim>\<open>tsserverlibrary.js\<close>
  where it does not. \<^verbatim>\<open>ensure\<close> does return that path whenever the lock does not stay
  and either the ready marker exists or the installation goes through (directory,
  descriptor, \<^verbatim>\<open>npm\<close> closing with code 0, ready marker). For a version of three decimal
  numbers the comparison holds exactly at or above 5.3.0; for one with a pre-release tag,
  which stands below its release, exactly when its numbers are above 5.3.0.
\<close>

theorem ensure_selects_entry_file:
  "let entry =
         Path_join [Path_join [cachePath w, V], ''node_modules'', ''typescript'', ''lib'',
           if Version_satisfies V ''5.3'' then ''typescript.js'' else ''tsserverlibrary.js'']
   in (\<forall>path. completion_of (ensure w out V (fs, t)) = Returned (Some path) \<longrightarrow> path = entry)
    \<and> ((lock_wait out = Cleared \<or> Path_join [cachePath w, V] \<notin> locks fs)
        \<and> (files fs (Path_join [Path_join [cachePath w, V], readyFileName w]) \<noteq> None
           \<or> (mkdir_fails out = None \<and> descriptor_fails out = None
              \<and> (\<exists>signal later. npm_events out = close_event (Some 0) signal # later)
              \<and> ready_fails out = None))
        \<longrightarrow> completion_of (ensure w out V (fs, t)) = Returned (Some entry))
    \<and> (\<forall>major minor patch.
          V = decimal major @ ''.'' @ decimal minor @ ''.'' @ decimal patch \<longrightarrow>
          (Version_satisfies V ''5.3'' \<longleftrightarrow> 5 < major \<or> (major = 5 \<and> 3 \<le> minor)))
    \<and> (\<forall>major minor patch tag.
          V = decimal major @ ''.'' @ decimal minor @ ''.'' @ decimal patch @ ''-'' @ tag \<longrightarrow>
          (Version_satisfies V ''5.3'' \<longleftrightarrow>
             5 < major \<or> (major = 5 \<and> (3 < minor \<or> (minor = 3 \<and> 0 < patch)))))"
proof -
  let ?entry =
    "Path_join [Path_join [cachePath w, V], ''node_modules'', ''typescript'', ''lib'',
       if Version_satisfies V ''5.3'' then ''typescript.js'' else ''tsserverlibrary.js'']"
  have returned: "path = ?entry"
    if "completion_of (ensure w out V (fs, t)) = Returned (Some path)" for path
    using ensure_path [of w out V fs t path] that
    unfolding completion_of_def by blast
  have returns: "completion_of (ensure w out V (fs, t)) = Returned (Some ?entry)"
    if "lock_wait out = Cleared \<or> Path_join [cachePath w, V] \<notin> locks fs"
      and "files fs (Path_join [Path_join [cachePath w, V], readyFileName w]) \<noteq> None
           \<or> (mkdir_fails out = None \<and> descriptor_fails out = None
              \<and> (\<exists>signal later. npm_events out = close_event (Some 0) signal # later)
              \<and> ready_fails out = None)"
    unfolding completion_of_def using that by (rule ensure_returns_entry)
  have plain: "Version_satisfies V ''5.3'' \<longleftrightarrow> 5 < major \<or> (major = 5 \<and> 3 \<le> minor)"
    if "V = decimal major @ ''.'' @ decimal minor @ ''.'' @ decimal patch"
    for major minor patch
    unfolding that by (rule Version_satisfies_boundary)
  have tagged: "Version_satisfies V ''5.3'' \<longleftrightarrow>
      5 < major \<or> (major = 5 \<and> (3 < minor \<or> (minor = 3 \<and> 0 < patch)))"
    if "V = decimal major @ ''.'' @ decimal minor @ ''.'' @ decimal patch @ ''-'' @ tag"
    for major minor patch tag
    unfolding that by (rule Version_satisfies_prerelease)
  from returned returns plain tagged show ?thesis
    unfolding Let_def by blast
qed

theorem ensure_selects_entry_file_witness:
  "(lock_wait (npm_closes (Some 0) None) = Cleared
    \<and> mkdir_fails (npm_closes (Some 0) None) = None
    \<and> descriptor_fails (npm_closes (Some 0) None) = None
    \<and> npm_events (npm_closes (Some 0) None) = close_event (Some 0) None # []
    \<and> ready_fails (npm_closes (Some 0) None) = None
    \<and> files empty_disk ''/store/5.4.2/__ready__'' = None
    \<and> ''5.4.2'' = decimal 5 @ ''.'' @ decimal 4 @ ''.'' @ decimal 2
    \<and> completion_of
         (ensure example_worker (npm_closes (Some 0) None) ''5.4.2'' (empty_disk, []))
        = Returned (Some ''/store/5.4.2/node_modules/typescript/lib/typescript.js''))
   \<and> (files (installed_disk ''5.2.0'') ''/store/5.2.0/__ready__'' \<noteq> None
    \<and> ''/store/5.2.0'' \<notin> locks (installed_disk ''5.2.0'')
    \<and> ''5.2.0'' = decimal 5 @ ''.'' @ decimal 2 @ ''.'' @ decimal 0
    \<and> completion_of
         (ensure example_worker (npm_closes None None) ''5.2.0'' (installed_disk ''5.2.0'', []))
        = Returned (Some ''/store/5.2.0/node_modules/typescript/lib/tsserverlibrary.js''))
   \<and> (''5.4.0-beta'' = decimal 5 @ ''.'' @ decimal 4 @ ''.'' @ decimal 0 @ ''-'' @ ''beta''
    \<and> Version_satisfies ''5.4.0-beta'' ''5.3''
    \<and> ''5.3.0-beta'' = decimal 5 @ ''.'' @ decimal 3 @ ''.'' @ decimal 0 @ ''-'' @ ''beta''
    \<and> \<not> Version_satisfies ''5.3.0-beta'' ''5.3'')"
proof -
  have fields: "cachePath example_worker = ''/store''" "readyFileName example_worker = ''__ready__''"
    by (simp_all add: example_worker_def new_CompilerModuleWorker_def)
  have strings: "''5.4.2'' = decimal 5 @ ''.'' @ decimal 4 @ ''.'' @ decimal 2"
    "''5.2.0'' = decimal 5 @ ''.'' @ decimal 2 @ ''.'' @ decimal 0"
    "''5.4.0-beta'' = decimal 5 @ ''.'' @ decimal 4 @ ''.'' @ decimal 0 @ ''-'' @ ''beta''"
    "''5.3.0-beta'' = decimal 5 @ ''.'' @ decimal 3 @ ''.'' @ decimal 0 @ ''-'' @ ''beta''"
    by (simp_all add: decimal_digit digit_char_def)
  have world: "lock_wait (npm_closes (Some 0) None) = Cleared"
    "mkdir_fails (npm_closes (Some 0) None) = None"
    "descriptor_fails (npm_closes (Some 0) None) = None"
    "npm_events (npm_closes (Some 0) None) = close_event (Some 0) None # []"
    "ready_fails (npm_closes (Some 0) None) = None"
    by (simp_all add: npm_closes_def)
  have disks: "files empty_disk ''/store/5.4.2/__ready__'' = None"
    "files (installed_disk ''5.2.0'') ''/store/5.2.0/__ready__'' \<noteq> None"
    "''/store/5.2.0'' \<notin> locks (installed_disk ''5.2.0'')"
    by (simp_all add: empty_disk_def installed_disk_def)
  note claim = ensure_selects_entry_file [unfolded Let_def]
  have above: "Version_satisfies ''5.4.2'' ''5.3''"
    using claim [where w = example_worker and V = "''5.4.2''" and out = "npm_closes (Some 0) None"
          and fs = "empty_disk" and t = "[]",
        THEN conjunct2, THEN conjunct2, THEN conjunct1, rule_format, OF strings(1)]
    by simp
  have below: "\<not> Version_satisfies ''5.2.0'' ''5.3''"
    using claim [where w = example_worker and V = "''5.2.0''" and out = "npm_closes None None"
          and fs = "installed_disk ''5.2.0''" and t = "[]",
        THEN conjunct2, THEN conjunct2, THEN conjunct1, rule_format, OF strings(2)]
    by simp
  have beta: "Version_satisfies ''5.4.0-beta'' ''5.3''"
    using claim [where w = example_worker and V = "''5.4.0-beta''" and out = "npm_closes None None"
          and fs = "empty_disk" and t = "[]",
        THEN conjunct2, THEN conjunct2, THEN conjunct2, rule_format, OF strings(3)]
    by simp
  have boundary_beta: "\<not> Version_satisfies ''5.3.0-beta'' ''5.3''"
    using claim [where w = example_worker and V = "''5.3.0-beta''" and out = "npm_closes None None"
          and fs = "empty_disk" and t = "[]",
        THEN conjunct2, THEN conjunct2, THEN conjunct2, rule_format, OF strings(4)]
    by simp
  have installs: "completion_of
         (ensure example_worker (npm_closes (Some 0) None) ''5.4.2'' (empty_disk, []))
        = Returned (Some ''/store/5.4.2/node_modules/typescript/lib/typescript.js'')"
    using claim [where w = example_worker and V = "''5.4.2''" and out = "npm_closes (Some 0) None"
          and fs = "empty_disk" and t = "[]",
        THEN conjunct2, THEN conjunct1] world disks above
    by (simp add: fields)
  have ready: "completion_of
         (ensure example_worker (npm_closes None None) ''5.2.0'' (installed_disk ''5.2.0'', []))
        = Returned (Some ''/store/5.2.0/node_modules/typescript/lib/tsserverlibrary.js'')"
    using claim [where w = example_worker and V = "''5.2.0''" and out = "npm_closes None None"
          and fs = "installed_disk ''5.2.0''" and t = "[]",
        THEN conjunct2, THEN conjunct1] disks below
    by (simp add: fields)
  from world disks strings above beta boundary_beta installs ready show ?thesis
    by blast
qed

text \<open>
  C8. Where the ready marker of a version exists and its installation path is not locked,
  \<^verbatim>\<open>ensure\<close> returns the entry file and does nothing else: the disk is the one it
  started with and no effect is added, so no directory is created, no descriptor written,
  no lock constructed and no installer spawned.
\<close>

theorem ready_marker_skips_installation:
  assumes "files fs (Path_join [Path_join [cachePath w, V], readyFileName w]) \<noteq> None"
      and "Path_join [cachePath w, V] \<notin> locks fs"
  shows "completion_of (ensure w out V (fs, t)) =
           Returned (Some (Path_join [Path_join [cachePath w, V], ''node_modules'', ''typescript'',
             ''lib'', if Version_satisfies V ''5.3'' then ''typescript.js''
                      else ''tsserverlibrary.js'']))
       \<and> disk_of (ensure w out V (fs, t)) = fs
       \<and> effects_of (ensure w out V (fs, t)) = t"
  unfolding ensure_ready [OF assms] run_defs by simp

theorem ready_marker_skips_installation_witness:
  "files (installed_disk ''5.4.2'') ''/store/5.4.2/__ready__'' \<noteq> None
   \<and> ''/store/5.4.2'' \<notin> locks (installed_disk ''5.4.2'')
   \<and> completion_of
        (ensure example_worker (npm_closes (Some 1) None) ''5.4.2'' (installed_disk ''5.4.2'', []))
       = Returned (Some ''/store/5.4.2/node_modules/typescript/lib/typescript.js'')
   \<and> disk_of
        (ensure example_worker (npm_closes (Some 1) None) ''5.4.2'' (installed_disk ''5.4.2'', []))
       = installed_disk ''5.4.2''
   \<and> effects_of
        (ensure example_worker (npm_closes (Some 1) None) ''5.4.2'' (installed_disk ''5.4.2'', []))
       = []"
  using ready_marker_skips_installation [of "installed_disk ''5.4.2''" example_worker "''5.4.2''"
      "npm_closes (Some 1) None" "[]"]
  by (simp add: example_defs Version_satisfies_def release_def prerelease_def version_numbers_def
      decimal_value_def digit_value_def)

end
